theory Spec2Isabelle
  imports Main
begin

section \<open>JavaScript values as the handlers see them\<close>

text \<open>
  The webhook body, the courier gateway's answers and the identifiers taken from them are
  untyped JavaScript values. \<open>json\<close> holds the values that JSON text can denote; a
  \<open>jsval\<close> is such a value or \<open>undefined\<close> (\<open>None\<close>). An object keeps its properties
  in their enumeration order. Numbers are the integer-valued ones.
\<close>

datatype json =
    JNull
  | JBool bool
  | JNum int
  | JStr string
  | JArr "json list"
  | JObj "(string \<times> json) list"

type_synonym jsval = "json option"

datatype error = TypeError | StoreError | UpstreamError

text \<open>
  Property access \<open>v.k\<close>, for the keys the source reads (none of them is inherited from
  a prototype): reading a property of \<open>undefined\<close> or \<open>null\<close> throws a TypeError, an
  object yields the property or \<open>undefined\<close>, every other value yields \<open>undefined\<close>.
\<close>

fun get_prop :: "jsval \<Rightarrow> string \<Rightarrow> error + jsval" where
  "get_prop None k = Inl TypeError"
| "get_prop (Some JNull) k = Inl TypeError"
| "get_prop (Some (JObj kvs)) k = Inr (map_of kvs k)"
| "get_prop (Some v) k = Inr None"

text \<open>Truthiness, as \<open>if (v)\<close> and \<open>!v\<close> test it.\<close>

fun truthy :: "jsval \<Rightarrow> bool" where
  "truthy None = False"
| "truthy (Some JNull) = False"
| "truthy (Some (JBool b)) = b"
| "truthy (Some (JNum n)) = (n \<noteq> 0)"
| "truthy (Some (JStr s)) = (s \<noteq> [])"
| "truthy (Some (JArr xs)) = True"
| "truthy (Some (JObj kvs)) = True"

subsection \<open>\<open>JSON.stringify\<close>\<close>

text \<open>
  The serialisation the verifier signs: no white space, properties in enumeration order,
  strings quoted with the two-character escapes and \<open>\u00XX\<close> for the other control
  characters.
\<close>

definition hex_digit :: "nat \<Rightarrow> char" where
  "hex_digit n = (''0123456789abcdef'') ! (n mod 16)"

definition escape_char :: "char \<Rightarrow> string" where
  "escape_char c =
     (if c = CHR ''\"'' then [CHR 0x5C, CHR ''\"'']
      else if c = CHR 0x5C then [CHR 0x5C, CHR 0x5C]
      else if c = CHR 0x08 then [CHR 0x5C, CHR ''b'']
      else if c = CHR 0x09 then [CHR 0x5C, CHR ''t'']
      else if c = CHR 0x0A then [CHR 0x5C, CHR ''n'']
      else if c = CHR 0x0C then [CHR 0x5C, CHR ''f'']
      else if c = CHR 0x0D then [CHR 0x5C, CHR ''r'']
      else if (of_char c :: nat) < 32
        then [CHR 0x5C, CHR ''u'', CHR ''0'', CHR ''0'',
              hex_digit (of_char c div 16), hex_digit (of_char c)]
      else [c])"

definition quote :: "string \<Rightarrow> string" where
  "quote s = [CHR ''\"''] @ concat (map escape_char s) @ [CHR ''\"'']"

fun digits :: "nat \<Rightarrow> string" where
  "digits n = (if n < 10 then [hex_digit n] else digits (n div 10) @ [hex_digit (n mod 10)])"

definition show_int :: "int \<Rightarrow> string" where
  "show_int i = (if i < 0 then CHR ''-'' # digits (nat (- i)) else digits (nat i))"

fun commas :: "string list \<Rightarrow> string" where
  "commas [] = []"
| "commas [x] = x"
| "commas (x # y # ys) = x @ '','' @ commas (y # ys)"

fun JSON_stringify :: "json \<Rightarrow> string" where
  "JSON_stringify JNull = ''null''"
| "JSON_stringify (JBool b) = (if b then ''true'' else ''false'')"
| "JSON_stringify (JNum i) = show_int i"
| "JSON_stringify (JStr s) = quote s"
| "JSON_stringify (JArr xs) = ''['' @ commas (map JSON_stringify xs) @ '']''"
| "JSON_stringify (JObj kvs) =
     ''{'' @ commas (map (\<lambda>(k, v). quote k @ '':'' @ JSON_stringify v) kvs) @ ''}''"

section \<open>The Order Store\<close>

text \<open>
  Modelled from the spec: the Order schema (\<open>models/Order\<close>) is not among the sources.
  \<open>paymentStatus\<close> and \<open>status\<close> range over the values the data model lists, in its
  order; the handler writes \<open>'paid'\<close> and \<open>'Placed'\<close>. \<open>adminStatus\<close> and
  \<open>shipmentDetails\<close> are optional. The attributes the webhook handler never reads or
  writes (line items, amount, address) are left out. The \<open>status\<close> of a shipment is
  the field \<open>shipment_status\<close>.
\<close>

datatype payment_status = Pending | Paid | Failed

datatype fulfillment_status = Created | Placed | Processing | Shipping | Delivered

record shipment_details =
  shiprocketOrderId :: jsval
  shipmentId :: jsval
  shipment_status :: jsval
  awbCode :: jsval
  courierName :: jsval

record order =
  user :: "string option"
  paymentStatus :: payment_status
  status :: fulfillment_status
  adminStatus :: "string option"
  shipmentDetails :: "shipment_details option"

text \<open>
  \<open>st k\<close> is the document \<open>Order.findById(k)\<close> resolves to, \<open>None\<close> for \<open>null\<close>.
\<close>

type_synonym store = "json \<Rightarrow> order option"

text \<open>The position of a fulfillment status in the lifecycle.\<close>

fun rank :: "fulfillment_status \<Rightarrow> nat" where
  "rank Created = 0"
| "rank Placed = 1"
| "rank Processing = 2"
| "rank Shipping = 3"
| "rank Delivered = 4"

section \<open>Writes and outbound calls\<close>

text \<open>
  What one webhook delivery does to the outside, in the order it does it: every
  \<open>order.save()\<close> with the document it writes and whether it was stored, the cart
  clear, the two courier gateway calls with their arguments, and the broadcast.
\<close>

datatype effect =
    SaveOrder json order bool
  | ClearCart string bool
  | CreateShipment json order
  | AssignCourier jsval
  | Emit string json order

fun apply_effect :: "effect \<Rightarrow> store \<Rightarrow> store" where
  "apply_effect (SaveOrder k doc ok) st = (if ok then st(k \<mapsto> doc) else st)"
| "apply_effect (ClearCart u ok) st = st"
| "apply_effect (CreateShipment k doc) st = st"
| "apply_effect (AssignCourier sid) st = st"
| "apply_effect (Emit name k doc) st = st"

definition run :: "effect list \<Rightarrow> store \<Rightarrow> store" where
  "run effs st = fold apply_effect effs st"

fun is_cart_clear :: "effect \<Rightarrow> bool" where
  "is_cart_clear (ClearCart u ok) = True"
| "is_cart_clear e = False"

fun is_create_shipment :: "effect \<Rightarrow> bool" where
  "is_create_shipment (CreateShipment k doc) = True"
| "is_create_shipment e = False"

fun is_emit :: "effect \<Rightarrow> bool" where
  "is_emit (Emit name k doc) = True"
| "is_emit e = False"

fun is_external_call :: "effect \<Rightarrow> bool" where
  "is_external_call (SaveOrder k doc ok) = False"
| "is_external_call e = True"

section \<open>The webhook request and what surrounds one delivery\<close>

text \<open>
  \<open>rawBody\<close> is the payload as it was sent; \<open>body\<close> is \<open>req.body\<close>, what
  \<open>express.json\<close> parsed from it. The handler reads \<open>signature\<close> and \<open>body\<close> only.
\<close>

record request =
  signature :: "string option"
  rawBody :: string
  body :: json

record response =
  status_code :: nat
  payload :: json

text \<open>A value registered on the Express application with \<open>app.set\<close>.\<close>

datatype app_setting = Number int | SocketServer

text \<open>
  The surroundings of one delivery: the configured secret (\<open>None\<close> when the variable
  is unset), the keyed hash of the \<open>crypto\<close> module, whether each store operation
  rejects, what the courier gateway answers to each of the two calls, and the
  application's settings.
\<close>

record env =
  RAZORPAY_WEBHOOK_SECRET :: "string option"
  hmac_sha256_hex :: "string \<Rightarrow> string \<Rightarrow> string"
  find_rejects :: bool
  save_paid_rejects :: bool
  cart_clear_rejects :: bool
  createShiprocketOrder :: "error + jsval"
  assignCourierAndGetAwb :: "error + jsval"
  save_shipment_rejects :: bool
  save_flag_rejects :: bool
  app :: "string \<Rightarrow> app_setting option"

text \<open>
  The application as the server's entry file sets it up: \<open>app.set("trust proxy", 1)\<close>
  is its only setting; the socket server is stored in \<open>global.io\<close>.
\<close>

definition server_app :: "string \<Rightarrow> app_setting option" where
  "server_app = [''trust proxy'' \<mapsto> Number 1]"

definition reply :: "nat \<Rightarrow> string \<Rightarrow> response" where
  "reply c m = \<lparr>status_code = c, payload = JObj [(''message'', JStr m)]\<rparr>"

definition reply_success :: "string \<Rightarrow> response" where
  "reply_success m =
     \<lparr>status_code = 200, payload = JObj [(''success'', JBool True), (''message'', JStr m)]\<rparr>"

section \<open>POST /webhook\<close>

text \<open>Lines 37-40: \<open>createHmac\<close> throws on an undefined key.\<close>

definition signed_message :: "request \<Rightarrow> string" where
  "signed_message req = JSON_stringify (body req)"

definition expectedSignature :: "env \<Rightarrow> request \<Rightarrow> error + string" where
  "expectedSignature env req =
     (case RAZORPAY_WEBHOOK_SECRET env of
        None \<Rightarrow> Inl TypeError
      | Some k \<Rightarrow> Inr (hmac_sha256_hex env k (signed_message req)))"

text \<open>Lines 56-57: \<open>req.body.payload.payment_link.entity.notes.internal_order_id\<close>.\<close>

definition internal_order_id :: "request \<Rightarrow> error + jsval" where
  "internal_order_id req =
     (case get_prop (Some (body req)) ''payload'' of
        Inl e \<Rightarrow> Inl e
      | Inr payload_v \<Rightarrow>
     (case get_prop payload_v ''payment_link'' of
        Inl e \<Rightarrow> Inl e
      | Inr link \<Rightarrow>
     (case get_prop link ''entity'' of
        Inl e \<Rightarrow> Inl e
      | Inr paymentEntity \<Rightarrow>
     (case get_prop paymentEntity ''notes'' of
        Inl e \<Rightarrow> Inl e
      | Inr notes \<Rightarrow> get_prop notes ''internal_order_id''))))"

text \<open>Line 65.\<close>

definition findById :: "env \<Rightarrow> store \<Rightarrow> json \<Rightarrow> error + order option" where
  "findById env st k = (if find_rejects env then Inl StoreError else Inr (st k))"

text \<open>
  Lines 87-105, the body of the inner \<open>try\<close>: the calls issued, the document as it is
  in memory when the block is left, and the exception that left it, if any.
\<close>

definition shiprocket :: "env \<Rightarrow> json \<Rightarrow> order \<Rightarrow> effect list \<times> order \<times> error option" where
  "shiprocket env k doc =
     (case createShiprocketOrder env of
        Inl e \<Rightarrow> ([CreateShipment k doc], doc, Some e)
      | Inr shiprocketOrder \<Rightarrow>
     (case get_prop shiprocketOrder ''order_id'' of
        Inl e \<Rightarrow> ([CreateShipment k doc], doc, Some e)
      | Inr order_id \<Rightarrow>
     (case get_prop shiprocketOrder ''shipment_id'' of
        Inl e \<Rightarrow> ([CreateShipment k doc], doc, Some e)
      | Inr shipment_id \<Rightarrow>
     (case assignCourierAndGetAwb env of
        Inl e \<Rightarrow> ([CreateShipment k doc, AssignCourier shipment_id], doc, Some e)
      | Inr awbData \<Rightarrow>
     (case get_prop awbData ''data'' of
        Inl e \<Rightarrow> ([CreateShipment k doc, AssignCourier shipment_id], doc, Some e)
      | Inr awb \<Rightarrow>
     (case get_prop awb ''status'' of
        Inl e \<Rightarrow> ([CreateShipment k doc, AssignCourier shipment_id], doc, Some e)
      | Inr awb_status \<Rightarrow>
     (case get_prop awb ''awb_code'' of
        Inl e \<Rightarrow> ([CreateShipment k doc, AssignCourier shipment_id], doc, Some e)
      | Inr awb_code \<Rightarrow>
     (case get_prop awb ''courier_name'' of
        Inl e \<Rightarrow> ([CreateShipment k doc, AssignCourier shipment_id], doc, Some e)
      | Inr courier_name \<Rightarrow>
        (let doc' = doc\<lparr>shipmentDetails := Some
                      \<lparr>shiprocketOrderId = order_id, shipmentId = shipment_id,
                       shipment_status = awb_status, awbCode = awb_code,
                       courierName = courier_name\<rparr>\<rparr>;
             calls = [CreateShipment k doc, AssignCourier shipment_id]
         in if save_shipment_rejects env
            then (calls @ [SaveOrder k doc' False], doc', Some StoreError)
            else (case app env ''io'' of
                    None \<Rightarrow> (calls @ [SaveOrder k doc' True], doc', None)
                  | Some SocketServer \<Rightarrow>
                      (calls @ [SaveOrder k doc' True, Emit ''newOrder'' k doc'], doc', None)
                  | Some (Number n) \<Rightarrow>
                      if n = 0 then (calls @ [SaveOrder k doc' True], doc', None)
                      else (calls @ [SaveOrder k doc' True], doc', Some TypeError)))))))))))"

text \<open>Lines 86-111: the inner \<open>try\<close> with its \<open>catch\<close>.\<close>

definition fulfil :: "env \<Rightarrow> json \<Rightarrow> order \<Rightarrow> effect list \<times> error option" where
  "fulfil env k doc =
     (case shiprocket env k doc of
        (effs, doc', None) \<Rightarrow> (effs, None)
      | (effs, doc', Some shiprocketError) \<Rightarrow>
          (let flagged = doc'\<lparr>adminStatus := Some ''shipping_error''\<rparr>
           in if save_flag_rejects env
              then (effs @ [SaveOrder k flagged False], Some StoreError)
              else (effs @ [SaveOrder k flagged True], None)))"

text \<open>Lines 81-84.\<close>

definition clear_cart :: "env \<Rightarrow> order \<Rightarrow> effect list \<times> error option" where
  "clear_cart env doc =
     (case user doc of
        None \<Rightarrow> ([], None)
      | Some u \<Rightarrow>
          if cart_clear_rejects env then ([ClearCart u False], Some StoreError)
          else ([ClearCart u True], None))"

text \<open>
  Lines 56-113, the body of the outer \<open>try\<close>: the effects issued, and the response
  sent or the exception that reaches the outer \<open>catch\<close>.
\<close>

definition payment_link_paid :: "env \<Rightarrow> request \<Rightarrow> store \<Rightarrow> effect list \<times> (error + response)" where
  "payment_link_paid env req st =
     (case internal_order_id req of
        Inl e \<Rightarrow> ([], Inl e)
      | Inr orderId \<Rightarrow>
     (case orderId of
        None \<Rightarrow> ([], Inr (reply 400 ''Order ID missing from webhook.''))
      | Some k \<Rightarrow>
          if \<not> truthy orderId then ([], Inr (reply 400 ''Order ID missing from webhook.''))
          else
     (case findById env st k of
        Inl e \<Rightarrow> ([], Inl e)
      | Inr None \<Rightarrow> ([], Inr (reply 404 ''Order not found''))
      | Inr (Some doc) \<Rightarrow>
          if paymentStatus doc = Paid
          then ([], Inr (reply_success ''Order already processed.''))
          else
            (let doc1 = doc\<lparr>paymentStatus := Paid, status := Placed\<rparr>
             in if save_paid_rejects env then ([SaveOrder k doc1 False], Inl StoreError)
                else
                  (case clear_cart env doc1 of
                     (cart, Some e) \<Rightarrow> (SaveOrder k doc1 True # cart, Inl e)
                   | (cart, None) \<Rightarrow>
                  (case fulfil env k doc1 of
                     (ship, Some e) \<Rightarrow> (SaveOrder k doc1 True # cart @ ship, Inl e)
                   | (ship, None) \<Rightarrow>
                       (SaveOrder k doc1 True # cart @ ship,
                        Inr (reply_success ''Webhook processed.''))))))))"

text \<open>
  Lines 32-122: the response sent, or the exception that escapes the handler, and the
  effects issued, in order.
\<close>

definition webhook :: "env \<Rightarrow> request \<Rightarrow> store \<Rightarrow> (error + response) \<times> effect list" where
  "webhook env req st =
     (case expectedSignature env req of
        Inl e \<Rightarrow> (Inr (reply 500 ''Signature verification failed.''), [])
      | Inr expected \<Rightarrow>
          if signature req \<noteq> Some expected then (Inr (reply 400 ''Invalid signature''), [])
          else
     (case get_prop (Some (body req)) ''event'' of
        Inl e \<Rightarrow> (Inl e, [])
      | Inr event \<Rightarrow>
          if event = Some (JStr ''payment_link.paid'')
          then (case payment_link_paid env req st of
                  (effs, Inl e) \<Rightarrow>
                    (Inr (reply 500 ''Server error during webhook processing''), effs)
                | (effs, Inr res) \<Rightarrow> (Inr res, effs))
          else (Inr (reply 200 ''Webhook received but no action taken for this event.''), [])))"

section \<open>Preconditions of the payment flow\<close>

text \<open>The signature header equals the expected signature (lines 37-45 let the request pass).\<close>

definition verified :: "env \<Rightarrow> request \<Rightarrow> bool" where
  "verified env req =
     (case expectedSignature env req of
        Inl e \<Rightarrow> False
      | Inr expected \<Rightarrow> signature req = Some expected)"

text \<open>The event is the payment confirmation (line 54).\<close>

definition payment_confirmed :: "request \<Rightarrow> bool" where
  "payment_confirmed req = (get_prop (Some (body req)) ''event'' = Inr (Some (JStr ''payment_link.paid'')))"

section \<open>Auxiliary notions for the properties\<close>

text \<open>
  An effect that, if it is a write to the store, writes the document of key \<open>k\<close> with
  payment status \<open>p\<close> and fulfillment status \<open>s\<close>.
\<close>

fun writes_only :: "json \<Rightarrow> payment_status \<Rightarrow> fulfillment_status \<Rightarrow> effect \<Rightarrow> bool" where
  "writes_only k p s (SaveOrder k' d ok) = (k' = k \<and> paymentStatus d = p \<and> status d = s)"
| "writes_only k p s e = True"

text \<open>
  Two deliveries of one request, one after the other: the second finds the store as the
  first left it. Each delivery has its own surroundings.
\<close>

definition deliver_twice :: "env \<Rightarrow> env \<Rightarrow> request \<Rightarrow> store \<Rightarrow> effect list \<times> effect list" where
  "deliver_twice env1 env2 req st =
     (let first = snd (webhook env1 req st)
      in (first, snd (webhook env2 req (run first st))))"

text \<open>
  One of the two courier gateway calls throws or rejects: \<open>createShiprocketOrder\<close>, or,
  once that has returned an object, \<open>assignCourierAndGetAwb\<close>.
\<close>

definition courier_call_throws :: "env \<Rightarrow> bool" where
  "courier_call_throws env =
     (case createShiprocketOrder env of
        Inl e \<Rightarrow> True
      | Inr shiprocketOrder \<Rightarrow>
          (case get_prop shiprocketOrder ''shipment_id'' of
             Inl e \<Rightarrow> False
           | Inr shipment_id \<Rightarrow>
               (case assignCourierAndGetAwb env of Inl e \<Rightarrow> True | Inr awbData \<Rightarrow> False)))"


text \<open>
  One step of webhook processing on the store: the effects of a delivery, or of the
  part of a delivery that ran before the process stopped.
\<close>

inductive webhook_step :: "store \<Rightarrow> store \<Rightarrow> bool" where
  delivery: "effs = snd (webhook env req st) \<Longrightarrow> webhook_step st (run (take n effs) st)"

section \<open>Worked examples\<close>

text \<open>
  A stand-in for the keyed hash, used where an example needs a concrete one; distinct
  messages get distinct tags. The theorems hold for every function in its place.
\<close>

definition example_mac :: "string \<Rightarrow> string \<Rightarrow> string" where
  "example_mac k m = k @ ''/'' @ m"

definition paid_event :: "json \<Rightarrow> json" where
  "paid_event notes =
     JObj [(''event'', JStr ''payment_link.paid''),
           (''payload'', JObj [(''payment_link'', JObj [(''entity'', JObj [(''notes'', notes)])])])]"

definition signed :: "string \<Rightarrow> json \<Rightarrow> request" where
  "signed k b =
     \<lparr>signature = Some (example_mac k (JSON_stringify b)), rawBody = JSON_stringify b, body = b\<rparr>"

definition example_env :: env where
  "example_env =
     \<lparr>RAZORPAY_WEBHOOK_SECRET = Some ''whsec'',
      hmac_sha256_hex = example_mac,
      find_rejects = False,
      save_paid_rejects = False,
      cart_clear_rejects = False,
      createShiprocketOrder =
        Inr (Some (JObj [(''order_id'', JNum 7001), (''shipment_id'', JNum 9001)])),
      assignCourierAndGetAwb =
        Inr (Some (JObj [(''data'', JObj [(''status'', JStr ''AWB Assigned''),
                                          (''awb_code'', JStr ''AWB123''),
                                          (''courier_name'', JStr ''BlueDart'')])])),
      save_shipment_rejects = False,
      save_flag_rejects = False,
      app = server_app\<rparr>"

definition O1 :: order where
  "O1 = \<lparr>user = Some ''u1'', paymentStatus = Pending, status = Created,
         adminStatus = None, shipmentDetails = None\<rparr>"

definition example_store :: store where
  "example_store = [JStr ''O1'' \<mapsto> O1]"

definition O1_paid_event :: request where
  "O1_paid_event = signed ''whsec'' (paid_event (JObj [(''internal_order_id'', JStr ''O1'')]))"

text \<open>
  A payload sent with a space after the colon, signed over the bytes sent; its parsed
  body serialises without the space.
\<close>

definition spaced_ping :: request where
  "spaced_ping =
     \<lparr>signature = Some (example_mac ''whsec'' ''{\"event\": \"ping\"}''),
      rawBody = ''{\"event\": \"ping\"}'',
      body = JObj [(''event'', JStr ''ping'')]\<rparr>"

text \<open>Signed payment confirmations without an order identifier, and for an unknown order.\<close>

definition no_id_event :: request where
  "no_id_event = signed ''whsec'' (paid_event (JObj []))"

definition unknown_order_event :: request where
  "unknown_order_event = signed ''whsec'' (paid_event (JObj [(''internal_order_id'', JStr ''O9'')]))"

text \<open>Surroundings in which the cart update rejects, and in which the courier assignment rejects.\<close>

definition cart_failure_env :: env where
  "cart_failure_env = example_env\<lparr>cart_clear_rejects := True\<rparr>"

definition courier_failure_env :: env where
  "courier_failure_env = example_env\<lparr>assignCourierAndGetAwb := Inl UpstreamError\<rparr>"

text \<open>An unpaid order already in shipping, and the example order without an owning user.\<close>

definition shipped_unpaid_store :: store where
  "shipped_unpaid_store = [JStr ''O1'' \<mapsto> O1\<lparr>status := Shipping\<rparr>]"


section \<open>Properties\<close>

lemma stringify_example:
  "JSON_stringify (JObj [(''event'', JStr ''ping''), (''n'', JArr [JNum 10, JNull])])
     = ''{\"event\":\"ping\",\"n\":[10,null]}''"
  by (simp add: quote_def escape_char_def show_int_def hex_digit_def)

subsection \<open>The handler, stage by stage\<close>

lemma webhook_verified:
  "verified env req \<Longrightarrow> payment_confirmed req \<Longrightarrow>
   webhook env req st =
     (case payment_link_paid env req st of
        (effs, Inl e) \<Rightarrow> (Inr (reply 500 ''Server error during webhook processing''), effs)
      | (effs, Inr res) \<Rightarrow> (Inr res, effs))"
  by (auto simp: verified_def webhook_def payment_confirmed_def split: sum.splits)

lemma webhook_effects_only_when_paid_event:
  "snd (webhook env req st) \<noteq> [] \<Longrightarrow> verified env req \<and> payment_confirmed req"
  by (auto simp: verified_def webhook_def payment_confirmed_def split: sum.splits if_splits)

lemma shiprocket_writes:
  "list_all (writes_only k (paymentStatus doc) (status doc)) (fst (shiprocket env k doc))"
  by (auto simp: shiprocket_def Let_def split: sum.splits option.splits app_setting.splits)

lemma shiprocket_doc:
  "shiprocket env k doc = (effs, doc', r) \<Longrightarrow>
     paymentStatus doc' = paymentStatus doc \<and> status doc' = status doc \<and> user doc' = user doc
     \<and> adminStatus doc' = adminStatus doc"
  by (auto simp: shiprocket_def Let_def split: sum.splits option.splits app_setting.splits if_splits)

lemma shiprocket_counts:
  "filter is_create_shipment (fst (shiprocket env k doc)) = [CreateShipment k doc]"
  "filter is_cart_clear (fst (shiprocket env k doc)) = []"
  by (auto simp: shiprocket_def Let_def split: sum.splits option.splits app_setting.splits)

lemma fulfil_writes:
  "list_all (writes_only k (paymentStatus doc) (status doc)) (fst (fulfil env k doc))"
  using shiprocket_writes[of k doc env]
  by (auto simp: fulfil_def Let_def split: prod.splits option.splits dest: shiprocket_doc)

lemma fulfil_counts:
  "filter is_create_shipment (fst (fulfil env k doc)) = [CreateShipment k doc]"
  "filter is_cart_clear (fst (fulfil env k doc)) = []"
  using shiprocket_counts[of env k doc]
  by (auto simp: fulfil_def Let_def split: prod.splits option.splits)

lemma clear_cart_cases:
  "clear_cart env doc = ([], None) \<and> user doc = None
   \<or> (\<exists>u. user doc = Some u \<and> clear_cart env doc = ([ClearCart u (\<not> cart_clear_rejects env)],
         if cart_clear_rejects env then Some StoreError else None))"
  by (auto simp: clear_cart_def split: option.splits)


lemma run_Nil: "run [] st = st"
  by (simp add: run_def)

lemma run_Cons: "run (e # es) st = run es (apply_effect e st)"
  by (simp add: run_def)

lemma run_append: "run (es @ fs) st = run fs (run es st)"
  by (simp add: run_def)

lemma run_writes_only:
  "list_all (writes_only k p s) effs \<Longrightarrow> st k = Some d \<Longrightarrow> paymentStatus d = p \<Longrightarrow> status d = s
     \<Longrightarrow> \<exists>d'. run effs st k = Some d' \<and> paymentStatus d' = p \<and> status d' = s"
proof (induction effs arbitrary: st d)
  case Nil
  then show ?case by (simp add: run_Nil)
next
  case (Cons e effs)
  then show ?case
    by (cases e) (auto simp: run_Cons)
qed

lemma run_other_key:
  "list_all (writes_only k p s) effs \<Longrightarrow> k' \<noteq> k \<Longrightarrow> run effs st k' = st k'"
proof (induction effs arbitrary: st)
  case Nil
  then show ?case by (simp add: run_Nil)
next
  case (Cons e effs)
  then show ?case
    by (cases e) (auto simp: run_Cons)
qed

lemma webhook_unpaid:
  assumes "verified env req" "payment_confirmed req"
    and "internal_order_id req = Inr (Some k)" "truthy (Some k)"
    and "findById env st k = Inr (Some doc)" "paymentStatus doc \<noteq> Paid"
  shows "webhook env req st =
     (let doc1 = doc\<lparr>paymentStatus := Paid, status := Placed\<rparr>
      in if save_paid_rejects env
         then (Inr (reply 500 ''Server error during webhook processing''), [SaveOrder k doc1 False])
         else (case clear_cart env doc1 of
                 (cart, Some e) \<Rightarrow>
                   (Inr (reply 500 ''Server error during webhook processing''),
                    SaveOrder k doc1 True # cart)
               | (cart, None) \<Rightarrow>
                   (case fulfil env k doc1 of
                      (ship, Some e) \<Rightarrow>
                        (Inr (reply 500 ''Server error during webhook processing''),
                         SaveOrder k doc1 True # cart @ ship)
                    | (ship, None) \<Rightarrow>
                        (Inr (reply_success ''Webhook processed.''),
                         SaveOrder k doc1 True # cart @ ship))))"
  using assms
  by (simp add: webhook_verified payment_link_paid_def Let_def split: prod.splits option.splits)

lemma webhook_no_effects:
  "snd (webhook env req st) = [] \<or>
   (\<exists>k doc. verified env req \<and> payment_confirmed req \<and> internal_order_id req = Inr (Some k)
      \<and> truthy (Some k) \<and> findById env st k = Inr (Some doc) \<and> paymentStatus doc \<noteq> Paid)"
proof (cases "snd (webhook env req st) = []")
  case True
  then show ?thesis by simp
next
  case False
  then have v: "verified env req" "payment_confirmed req"
    using webhook_effects_only_when_paid_event by blast+
  from False show ?thesis
    unfolding webhook_verified[OF v]
    using v
    by (auto simp: payment_link_paid_def split: sum.splits option.splits if_splits)
qed

lemma unpaid_effects:
  assumes "verified env req" "payment_confirmed req"
    and "internal_order_id req = Inr (Some k)" "truthy (Some k)"
    and "findById env st k = Inr (Some doc)" "paymentStatus doc \<noteq> Paid"
  shows "\<exists>rest. snd (webhook env req st) =
            SaveOrder k (doc\<lparr>paymentStatus := Paid, status := Placed\<rparr>) (\<not> save_paid_rejects env) # rest
          \<and> (save_paid_rejects env \<longrightarrow> rest = [])
          \<and> list_all (writes_only k Paid Placed) rest
          \<and> length (filter is_cart_clear rest) \<le> 1
          \<and> length (filter is_create_shipment rest) \<le> 1"
proof -
  let ?doc1 = "doc\<lparr>paymentStatus := Paid, status := Placed\<rparr>"
  have w: "list_all (writes_only k Paid Placed) (fst (fulfil env k ?doc1))"
    using fulfil_writes[of k ?doc1 env] by simp
  show ?thesis
    unfolding webhook_unpaid[OF assms]
    using w clear_cart_cases[of env ?doc1] fulfil_counts[of env k ?doc1]
    by (auto simp: Let_def split: prod.splits option.splits)
qed


lemma single_delivery_counts:
  "length (filter is_cart_clear (snd (webhook env req st))) \<le> 1
   \<and> length (filter is_create_shipment (snd (webhook env req st))) \<le> 1"
proof (cases "snd (webhook env req st) = []")
  case True
  then show ?thesis by simp
next
  case False
  then obtain k doc where "verified env req" "payment_confirmed req"
      "internal_order_id req = Inr (Some k)" "truthy (Some k)"
      "findById env st k = Inr (Some doc)" "paymentStatus doc \<noteq> Paid"
    using webhook_no_effects[of env req st] by blast
  from unpaid_effects[OF this] show ?thesis by auto
qed

lemma paid_order_no_effects:
  assumes "internal_order_id req = Inr (Some k)" "st k = Some d" "paymentStatus d = Paid"
  shows "snd (webhook env req st) = []"
proof (rule ccontr)
  assume "snd (webhook env req st) \<noteq> []"
  then obtain k' doc where "internal_order_id req = Inr (Some k')"
      "findById env st k' = Inr (Some doc)" "paymentStatus doc \<noteq> Paid"
    using webhook_no_effects[of env req st] by blast
  with assms show False
    by (auto simp: findById_def split: if_splits)
qed

lemma first_delivery_cases:
  "run (snd (webhook env req st)) st = st \<and> filter is_cart_clear (snd (webhook env req st)) = []
      \<and> filter is_create_shipment (snd (webhook env req st)) = []
   \<or> (\<exists>k d. internal_order_id req = Inr (Some k)
          \<and> run (snd (webhook env req st)) st k = Some d \<and> paymentStatus d = Paid)"
proof (cases "snd (webhook env req st) = []")
  case True
  then show ?thesis by (simp add: run_Nil)
next
  case False
  then obtain k doc where h: "verified env req" "payment_confirmed req"
      "internal_order_id req = Inr (Some k)" "truthy (Some k)"
      "findById env st k = Inr (Some doc)" "paymentStatus doc \<noteq> Paid"
    using webhook_no_effects[of env req st] by blast
  let ?doc1 = "doc\<lparr>paymentStatus := Paid, status := Placed\<rparr>"
  from unpaid_effects[OF h] obtain rest where
    r: "snd (webhook env req st) = SaveOrder k ?doc1 (\<not> save_paid_rejects env) # rest"
      "save_paid_rejects env \<longrightarrow> rest = []"
      "list_all (writes_only k Paid Placed) rest"
    by blast
  show ?thesis
  proof (cases "save_paid_rejects env")
    case True
    with r show ?thesis by (simp add: run_Cons run_Nil)
  next
    case False
    have "\<exists>d'. run rest (st(k \<mapsto> ?doc1)) k = Some d' \<and> paymentStatus d' = Paid \<and> status d' = Placed"
      by (rule run_writes_only[OF r(3), where d = ?doc1]) simp_all
    with False r(1) h(3) show ?thesis by (auto simp: run_Cons)
  qed
qed

lemma twice_counts:
  "length (filter is_cart_clear (fst (deliver_twice env1 env2 req st) @ snd (deliver_twice env1 env2 req st))) \<le> 1
   \<and> length (filter is_create_shipment (fst (deliver_twice env1 env2 req st) @ snd (deliver_twice env1 env2 req st))) \<le> 1"
proof -
  let ?e1 = "snd (webhook env1 req st)"
  let ?st1 = "run ?e1 st"
  from first_delivery_cases[of env1 req st] show ?thesis
  proof
    assume "?st1 = st \<and> filter is_cart_clear ?e1 = [] \<and> filter is_create_shipment ?e1 = []"
    then show ?thesis
      using single_delivery_counts[of env2 req st] by (simp add: deliver_twice_def Let_def)
  next
    assume "\<exists>k d. internal_order_id req = Inr (Some k) \<and> ?st1 k = Some d \<and> paymentStatus d = Paid"
    then obtain k d where "internal_order_id req = Inr (Some k)" "?st1 k = Some d" "paymentStatus d = Paid"
      by blast
    then have "snd (webhook env2 req ?st1) = []"
      by (rule paid_order_no_effects)
    then show ?thesis
      using single_delivery_counts[of env1 req st] by (simp add: deliver_twice_def Let_def)
  qed
qed

subsection \<open>The worked example\<close>

lemma example_verified: "verified example_env O1_paid_event"
  by (simp add: verified_def expectedSignature_def example_env_def O1_paid_event_def signed_def
      signed_message_def)

lemma example_confirmed: "payment_confirmed O1_paid_event"
  by (simp add: payment_confirmed_def O1_paid_event_def signed_def paid_event_def)

lemma example_order_id: "internal_order_id O1_paid_event = Inr (Some (JStr ''O1''))"
  by (simp add: internal_order_id_def O1_paid_event_def signed_def paid_event_def)

lemma example_find: "\<not> find_rejects example_env" "\<not> save_paid_rejects example_env"
  "\<not> cart_clear_rejects example_env" "\<not> save_shipment_rejects example_env"
  "\<not> save_flag_rejects example_env"
  by (simp_all add: example_env_def)

lemma signed_verified:
  "RAZORPAY_WEBHOOK_SECRET env = Some s \<Longrightarrow> hmac_sha256_hex env = example_mac \<Longrightarrow>
     verified env (signed s b)"
  by (simp add: verified_def expectedSignature_def signed_def signed_message_def)

lemma paid_event_confirmed: "payment_confirmed (signed s (paid_event notes))"
  by (simp add: payment_confirmed_def signed_def paid_event_def)

lemma paid_event_order_id:
  "internal_order_id (signed s (paid_event notes)) = get_prop (Some notes) ''internal_order_id''"
  by (simp add: internal_order_id_def signed_def paid_event_def)

lemma missing_signature_unverified: "signature req = None \<Longrightarrow> \<not> verified env req"
  by (simp add: verified_def split: sum.splits)

lemma get_prop_same:
  "get_prop v a = Inr x \<Longrightarrow> \<exists>y. get_prop v b = Inr y"
  by (cases "(v, a)" rule: get_prop.cases) auto

lemma fulfil_courier_throws:
  assumes "courier_call_throws env" "\<not> save_flag_rejects env"
  shows "snd (fulfil env k doc) = None
       \<and> run (fst (fulfil env k doc)) st = st(k \<mapsto> doc\<lparr>adminStatus := Some ''shipping_error''\<rparr>)
       \<and> filter is_emit (fst (fulfil env k doc)) = []"
  using assms
  by (auto simp: courier_call_throws_def fulfil_def shiprocket_def run_def
      split: sum.splits dest: get_prop_same)

lemma verified_cong:
  "RAZORPAY_WEBHOOK_SECRET env' = RAZORPAY_WEBHOOK_SECRET env \<Longrightarrow>
   hmac_sha256_hex env' = hmac_sha256_hex env \<Longrightarrow> verified env' req = verified env req"
  by (simp add: verified_def expectedSignature_def split: option.splits)

lemma example_found: "findById example_env example_store (JStr ''O1'') = Inr (Some O1)"
  by (simp add: findById_def example_store_def example_env_def)

lemma O1_fields: "paymentStatus O1 = Pending" "user O1 = Some ''u1''" "status O1 = Created"
  "adminStatus O1 = None" "shipmentDetails O1 = None"
  by (simp_all add: O1_def)

lemma cart_failure_verified: "verified cart_failure_env O1_paid_event"
  using example_verified verified_cong[of cart_failure_env example_env O1_paid_event]
  by (simp add: cart_failure_env_def)

lemma cart_failure_found: "findById cart_failure_env example_store (JStr ''O1'') = Inr (Some O1)"
  using example_found by (simp add: findById_def cart_failure_env_def)

lemma example_run:
  "webhook example_env O1_paid_event example_store =
     (Inr (reply_success ''Webhook processed.''),
      [SaveOrder (JStr ''O1'') (O1\<lparr>paymentStatus := Paid, status := Placed\<rparr>) True,
       ClearCart ''u1'' True,
       CreateShipment (JStr ''O1'') (O1\<lparr>paymentStatus := Paid, status := Placed\<rparr>),
       AssignCourier (Some (JNum 9001)),
       SaveOrder (JStr ''O1'')
         (O1\<lparr>paymentStatus := Paid, status := Placed,
             shipmentDetails := Some
               \<lparr>shiprocketOrderId = Some (JNum 7001), shipmentId = Some (JNum 9001),
                shipment_status = Some (JStr ''AWB Assigned''), awbCode = Some (JStr ''AWB123''),
                courierName = Some (JStr ''BlueDart'')\<rparr>\<rparr>) True])"
proof -
  have t: "truthy (Some (JStr ''O1''))" by simp
  have p: "paymentStatus O1 \<noteq> Paid" by (simp add: O1_fields)
  show ?thesis
    unfolding webhook_unpaid[OF example_verified example_confirmed example_order_id t example_found p]
    by (simp add: example_env_def clear_cart_def O1_fields fulfil_def shiprocket_def server_app_def Let_def)
qed

lemma list_all_take: "list_all P xs \<Longrightarrow> list_all P (take n xs)"
  by (auto simp: list_all_iff dest: in_set_takeD)




lemma step_change:
  assumes "webhook_step st st'" "st k = Some doc"
  shows "\<exists>doc'. st' k = Some doc'
           \<and> (doc' = doc \<or> paymentStatus doc \<noteq> Paid \<and> paymentStatus doc' = Paid \<and> status doc' = Placed)"
  using assms(1)
proof cases
  case (delivery effs env req n)
  show ?thesis
  proof (cases "effs = []")
    case True
    with delivery assms(2) show ?thesis by (simp add: run_Nil)
  next
    case False
    with delivery(2) obtain k0 doc0 where h: "verified env req" "payment_confirmed req"
        "internal_order_id req = Inr (Some k0)" "truthy (Some k0)"
        "findById env st k0 = Inr (Some doc0)" "paymentStatus doc0 \<noteq> Paid"
      using webhook_no_effects[of env req st] by blast
    let ?doc1 = "doc0\<lparr>paymentStatus := Paid, status := Placed\<rparr>"
    from unpaid_effects[OF h] delivery(2) obtain rest where
      r: "effs = SaveOrder k0 ?doc1 (\<not> save_paid_rejects env) # rest"
        "save_paid_rejects env \<longrightarrow> rest = []"
        "list_all (writes_only k0 Paid Placed) rest"
      by auto
    have st0: "st k0 = Some doc0"
      using h(5) by (simp add: findById_def split: if_splits)
    show ?thesis
    proof (cases n)
      case 0
      with delivery(1) assms(2) show ?thesis by (simp add: run_Nil)
    next
      case (Suc m)
      show ?thesis
      proof (cases "save_paid_rejects env")
        case True
        with r Suc delivery(1) assms(2) show ?thesis by (simp add: run_Cons run_Nil)
      next
        case False
        then have st': "st' = run (take m rest) (st(k0 \<mapsto> ?doc1))"
          using r(1) Suc delivery(1) by (simp add: run_Cons)
        have w: "list_all (writes_only k0 Paid Placed) (take m rest)"
          by (rule list_all_take[OF r(3)])
        show ?thesis
        proof (cases "k = k0")
          case True
          have "\<exists>d'. run (take m rest) (st(k0 \<mapsto> ?doc1)) k0 = Some d'
                  \<and> paymentStatus d' = Paid \<and> status d' = Placed"
            by (rule run_writes_only[OF w, where d = ?doc1]) simp_all
          with True st' st0 assms(2) h(6) show ?thesis by auto
        next
          case False
          then have "st' k = st k"
            using run_other_key[OF w, of k "st(k0 \<mapsto> ?doc1)"] st' by simp
          with assms(2) show ?thesis by simp
        qed
      qed
    qed
  qed
qed

lemma steps_change:
  assumes "webhook_step\<^sup>*\<^sup>* st st'" "st k = Some doc"
  shows "\<exists>doc'. st' k = Some doc'
           \<and> (doc' = doc \<or> paymentStatus doc \<noteq> Paid \<and> paymentStatus doc' = Paid \<and> status doc' = Placed)"
  using assms
proof (induction rule: rtranclp_induct)
  case base
  then show ?case by simp
next
  case (step y z)
  then obtain d1 where d1: "y k = Some d1"
      "d1 = doc \<or> paymentStatus doc \<noteq> Paid \<and> paymentStatus d1 = Paid \<and> status d1 = Placed"
    by blast
  from step_change[OF step(2) d1(1)] obtain d2 where d2: "z k = Some d2"
      "d2 = d1 \<or> paymentStatus d1 \<noteq> Paid \<and> paymentStatus d2 = Paid \<and> status d2 = Placed"
    by blast
  from d1(2) d2 show ?case by auto
qed

subsection \<open>Idempotent redelivery\<close>

text \<open>
  C1. A verified payment confirmation for an order that the store holds as paid is a
  no-op: the response is 200 "Order already processed.", no effect is issued (no cart
  clear, no courier call, no write), and the store is as before. Hence two deliveries
  of one verified payment confirmation, one after the other, issue at most one cart
  clear and at most one shipment creation between them, whatever happens around each
  delivery; and when the first delivery found the order unpaid with an owning user and
  persisted the payment, the second is that no-op and exactly one cart clear was issued.
\<close>

theorem C1_redelivery_is_noop:
  assumes v2: "verified env2 req" and pc: "payment_confirmed req"
    and oid: "internal_order_id req = Inr (Some k)" "truthy (Some k)"
    and find2: "\<not> find_rejects env2"
  shows "(st k = Some doc \<and> paymentStatus doc = Paid \<longrightarrow>
            webhook env2 req st = (Inr (reply_success ''Order already processed.''), [])
            \<and> run (snd (webhook env2 req st)) st = st)
       \<and> length (filter is_cart_clear
            (fst (deliver_twice env1 env2 req st0) @ snd (deliver_twice env1 env2 req st0))) \<le> 1
       \<and> length (filter is_create_shipment
            (fst (deliver_twice env1 env2 req st0) @ snd (deliver_twice env1 env2 req st0))) \<le> 1
       \<and> (verified env1 req \<and> findById env1 st0 k = Inr (Some doc0) \<and> paymentStatus doc0 \<noteq> Paid
            \<and> user doc0 = Some u \<and> \<not> save_paid_rejects env1 \<longrightarrow>
            webhook env2 req (run (snd (webhook env1 req st0)) st0)
              = (Inr (reply_success ''Order already processed.''), [])
            \<and> filter is_cart_clear
                (fst (deliver_twice env1 env2 req st0) @ snd (deliver_twice env1 env2 req st0))
              = [ClearCart u (\<not> cart_clear_rejects env1)])"
proof -
  have noop: "webhook env2 req s = (Inr (reply_success ''Order already processed.''), [])"
    if "s k = Some d" "paymentStatus d = Paid" for s d
    using that v2 pc oid find2
    by (simp add: webhook_verified payment_link_paid_def findById_def)
  have a: "st k = Some doc \<and> paymentStatus doc = Paid \<longrightarrow>
            webhook env2 req st = (Inr (reply_success ''Order already processed.''), [])
            \<and> run (snd (webhook env2 req st)) st = st"
    using noop by (auto simp: run_Nil)
  have c: "webhook env2 req (run (snd (webhook env1 req st0)) st0)
              = (Inr (reply_success ''Order already processed.''), [])
            \<and> filter is_cart_clear
                (fst (deliver_twice env1 env2 req st0) @ snd (deliver_twice env1 env2 req st0))
              = [ClearCart u (\<not> cart_clear_rejects env1)]"
    if h: "verified env1 req" "findById env1 st0 k = Inr (Some doc0)" "paymentStatus doc0 \<noteq> Paid"
      "user doc0 = Some u" "\<not> save_paid_rejects env1"
  proof -
    let ?doc1 = "doc0\<lparr>paymentStatus := Paid, status := Placed\<rparr>"
    let ?e1 = "snd (webhook env1 req st0)"
    from unpaid_effects[OF h(1) pc oid h(2,3)] h(5) obtain rest where
      r: "?e1 = SaveOrder k ?doc1 True # rest" "list_all (writes_only k Paid Placed) rest"
      by auto
    have "\<exists>d'. run rest (st0(k \<mapsto> ?doc1)) k = Some d' \<and> paymentStatus d' = Paid \<and> status d' = Placed"
      by (rule run_writes_only[OF r(2), where d = ?doc1]) simp_all
    then obtain d' where "run ?e1 st0 k = Some d'" "paymentStatus d' = Paid"
      using r(1) by (auto simp: run_Cons)
    then have second: "webhook env2 req (run ?e1 st0) = (Inr (reply_success ''Order already processed.''), [])"
      by (rule noop)
    have "filter is_cart_clear ?e1 = [ClearCart u (\<not> cart_clear_rejects env1)]"
      unfolding webhook_unpaid[OF h(1) pc oid h(2,3)]
      using h(4,5) fulfil_counts[of env1 k ?doc1]
      by (auto simp: Let_def clear_cart_def split: prod.splits option.splits)
    with second show ?thesis
      by (simp add: deliver_twice_def Let_def)
  qed
  from a twice_counts[of env1 env2 req st0] c show ?thesis by blast
qed


theorem C1_redelivery_is_noop_witness:
  "webhook example_env O1_paid_event (example_store(JStr ''O1'' \<mapsto> O1\<lparr>paymentStatus := Paid\<rparr>))
     = (Inr (reply_success ''Order already processed.''), [])
   \<and> webhook example_env O1_paid_event
        (run (snd (webhook example_env O1_paid_event example_store)) example_store)
     = (Inr (reply_success ''Order already processed.''), [])
   \<and> filter is_cart_clear
        (fst (deliver_twice example_env example_env O1_paid_event example_store)
         @ snd (deliver_twice example_env example_env O1_paid_event example_store))
     = [ClearCart ''u1'' True]
   \<and> length (filter is_create_shipment
        (fst (deliver_twice example_env example_env O1_paid_event example_store)
         @ snd (deliver_twice example_env example_env O1_paid_event example_store))) \<le> 1"
proof -
  have t: "truthy (Some (JStr ''O1''))" by simp
  note c1 = C1_redelivery_is_noop[OF example_verified example_confirmed example_order_id t
      example_find(1),
      of "example_store(JStr ''O1'' \<mapsto> O1\<lparr>paymentStatus := Paid\<rparr>)" "O1\<lparr>paymentStatus := Paid\<rparr>"
         example_env example_store O1 "''u1''"]
  have "findById example_env example_store (JStr ''O1'') = Inr (Some O1)"
    by (simp add: findById_def example_store_def example_find)
  moreover have "paymentStatus O1 \<noteq> Paid" "user O1 = Some ''u1''"
    by (simp_all add: O1_def)
  ultimately show ?thesis
    using c1 example_verified example_find by simp
qed

subsection \<open>Signature enforcement\<close>

text \<open>
  C5, as amended. The expected signature is the keyed hash, under the configured secret,
  of \<open>JSON.stringify(req.body)\<close>, the re-serialised parsed body. A request whose
  signature header is missing or differs from it is answered 400 "Invalid signature";
  when computing the expected signature throws (the secret is not configured), the answer
  is 500 "Signature verification failed.". In each of these cases the handler issues no
  effect at all: the Order Store is as before.
\<close>

theorem C5_unverified_is_rejected:
  assumes "\<not> verified env req"
  shows "webhook env req st =
           (Inr (if RAZORPAY_WEBHOOK_SECRET env = None
                 then reply 500 ''Signature verification failed.''
                 else reply 400 ''Invalid signature''), [])
       \<and> run (snd (webhook env req st)) st = st
       \<and> expectedSignature env req =
           (case RAZORPAY_WEBHOOK_SECRET env of
              None \<Rightarrow> Inl TypeError
            | Some s \<Rightarrow> Inr (hmac_sha256_hex env s (JSON_stringify (body req))))"
proof -
  have "webhook env req st =
           (Inr (if RAZORPAY_WEBHOOK_SECRET env = None
                 then reply 500 ''Signature verification failed.''
                 else reply 400 ''Invalid signature''), [])"
    using assms
    by (auto simp: verified_def webhook_def expectedSignature_def split: option.splits sum.splits)
  then show ?thesis
    by (simp add: run_Nil expectedSignature_def signed_message_def split: option.splits)
qed

theorem C5_unverified_is_rejected_witness:
  "webhook example_env (O1_paid_event\<lparr>signature := None\<rparr>) example_store
     = (Inr (reply 400 ''Invalid signature''), [])
   \<and> webhook example_env (O1_paid_event\<lparr>signature := Some ''00''\<rparr>) example_store
     = (Inr (reply 400 ''Invalid signature''), [])
   \<and> webhook (example_env\<lparr>RAZORPAY_WEBHOOK_SECRET := None\<rparr>) O1_paid_event example_store
     = (Inr (reply 500 ''Signature verification failed.''), [])"
proof -
  have a: "\<not> verified example_env (O1_paid_event\<lparr>signature := None\<rparr>)"
    by (rule missing_signature_unverified) simp
  have b: "\<not> verified example_env (O1_paid_event\<lparr>signature := Some ''00''\<rparr>)"
    by (simp add: verified_def expectedSignature_def example_env_def example_mac_def)
  have c: "\<not> verified (example_env\<lparr>RAZORPAY_WEBHOOK_SECRET := None\<rparr>) O1_paid_event"
    by (simp add: verified_def expectedSignature_def)
  show ?thesis
    using C5_unverified_is_rejected[OF a, of example_store]
      C5_unverified_is_rejected[OF b, of example_store]
      C5_unverified_is_rejected[OF c, of example_store]
    by (simp add: example_env_def)
qed

text \<open>
  C5 as stated fails: the hash is not taken over the raw payload. A payload sent as
  \<open>{"event": "ping"}\<close> and signed over exactly these bytes is rejected, because the
  handler hashes \<open>{"event":"ping"}\<close>.
\<close>

theorem C5_raw_payload_counterexample:
  "signature spaced_ping = Some (hmac_sha256_hex example_env ''whsec'' (rawBody spaced_ping))
   \<and> expectedSignature example_env spaced_ping
       \<noteq> Inr (hmac_sha256_hex example_env ''whsec'' (rawBody spaced_ping))
   \<and> webhook example_env spaced_ping example_store = (Inr (reply 400 ''Invalid signature''), [])"
  by (simp add: spaced_ping_def example_env_def example_mac_def expectedSignature_def
      signed_message_def webhook_def quote_def escape_char_def)

subsection \<open>Missing order identifier\<close>

text \<open>
  C6. For a verified payment confirmation whose notes carry no internal order identifier
  (the property is absent, or it is a falsy value), the handler answers 400
  "Order ID missing from webhook." and issues no effect. When the identifier is present
  and the store has no such order, the answer is 404 "Order not found", again with no
  effect; the two answers differ in their status code.
\<close>

theorem C6_missing_order_id:
  assumes "verified env req" "payment_confirmed req"
  shows "(internal_order_id req = Inr v \<and> \<not> truthy v \<longrightarrow>
            webhook env req st = (Inr (reply 400 ''Order ID missing from webhook.''), []))
       \<and> (internal_order_id req = Inr (Some k) \<and> truthy (Some k) \<and> findById env st k = Inr None \<longrightarrow>
            webhook env req st = (Inr (reply 404 ''Order not found''), []))
       \<and> status_code (reply 400 ''Order ID missing from webhook.'')
           \<noteq> status_code (reply 404 ''Order not found'')"
  using assms
  by (auto simp: webhook_verified payment_link_paid_def reply_def split: option.splits)

theorem C6_missing_order_id_witness:
  "webhook example_env no_id_event example_store
     = (Inr (reply 400 ''Order ID missing from webhook.''), [])
   \<and> webhook example_env unknown_order_event example_store
     = (Inr (reply 404 ''Order not found''), [])"
proof -
  have s: "RAZORPAY_WEBHOOK_SECRET example_env = Some ''whsec''" "hmac_sha256_hex example_env = example_mac"
    by (simp_all add: example_env_def)
  have a: "internal_order_id no_id_event = Inr None"
    by (simp add: no_id_event_def paid_event_order_id)
  have b: "internal_order_id unknown_order_event = Inr (Some (JStr ''O9''))"
    by (simp add: unknown_order_event_def paid_event_order_id)
  have c: "findById example_env example_store (JStr ''O9'') = Inr None"
    by (simp add: findById_def example_env_def example_store_def)
  show ?thesis
    using C6_missing_order_id[of example_env no_id_event None example_store]
      C6_missing_order_id[of example_env unknown_order_event _ example_store "JStr ''O9''"]
      a b c signed_verified[OF s] paid_event_confirmed
    by (simp add: no_id_event_def unknown_order_event_def)
qed



subsection \<open>Courier failure is isolated\<close>

text \<open>
  C2. For a verified payment confirmation on an existing unpaid order whose payment was
  persisted and whose cart clear, if any, succeeded: when \<open>createShiprocketOrder\<close> or
  \<open>assignCourierAndGetAwb\<close> throws and the flag is persisted, the handler answers 200
  "Webhook processed.", the stored order is the one found with \<open>paymentStatus\<close> paid,
  \<open>status\<close> Placed and \<open>adminStatus\<close> "shipping_error" (so \<open>shipmentDetails\<close> is as it
  was), every other order is untouched, and nothing is broadcast.
\<close>

theorem C2_courier_failure_is_isolated:
  assumes "verified env req" "payment_confirmed req"
    and "internal_order_id req = Inr (Some k)" "truthy (Some k)"
    and "findById env st k = Inr (Some doc)" "paymentStatus doc \<noteq> Paid"
    and "\<not> save_paid_rejects env" "user doc = None \<or> \<not> cart_clear_rejects env"
    and "courier_call_throws env" "\<not> save_flag_rejects env"
  shows "fst (webhook env req st) = Inr (reply_success ''Webhook processed.'')
       \<and> status_code (reply_success ''Webhook processed.'') = 200
       \<and> run (snd (webhook env req st)) st
           = st(k \<mapsto> doc\<lparr>paymentStatus := Paid, status := Placed,
                          adminStatus := Some ''shipping_error''\<rparr>)
       \<and> filter is_emit (snd (webhook env req st)) = []"
proof -
  let ?doc1 = "doc\<lparr>paymentStatus := Paid, status := Placed\<rparr>"
  have f: "snd (fulfil env k ?doc1) = None"
    "run (fst (fulfil env k ?doc1)) (st(k \<mapsto> ?doc1))
       = st(k \<mapsto> ?doc1\<lparr>adminStatus := Some ''shipping_error''\<rparr>)"
    "filter is_emit (fst (fulfil env k ?doc1)) = []"
    using fulfil_courier_throws[OF assms(9,10), of k ?doc1 "st(k \<mapsto> ?doc1)"] by simp_all
  show ?thesis
    unfolding webhook_unpaid[OF assms(1-6)]
    using assms(7,8) f clear_cart_cases[of env ?doc1]
    by (auto simp: Let_def run_Nil run_Cons run_append reply_success_def split: prod.splits option.splits)
qed


theorem C2_courier_failure_is_isolated_witness:
  "fst (webhook courier_failure_env O1_paid_event example_store)
     = Inr (reply_success ''Webhook processed.'')
   \<and> run (snd (webhook courier_failure_env O1_paid_event example_store)) example_store
     = example_store(JStr ''O1'' \<mapsto>
         \<lparr>user = Some ''u1'', paymentStatus = Paid, status = Placed,
          adminStatus = Some ''shipping_error'', shipmentDetails = None\<rparr>)
   \<and> filter is_emit (snd (webhook courier_failure_env O1_paid_event example_store)) = []"
proof -
  have v: "verified courier_failure_env O1_paid_event"
    using example_verified verified_cong[of courier_failure_env example_env O1_paid_event]
    by (simp add: courier_failure_env_def)
  have t: "truthy (Some (JStr ''O1''))" by simp
  have f: "findById courier_failure_env example_store (JStr ''O1'') = Inr (Some O1)"
    using example_found by (simp add: findById_def courier_failure_env_def)
  have p: "paymentStatus O1 \<noteq> Paid" by (simp add: O1_fields)
  have r: "\<not> save_paid_rejects courier_failure_env"
    "user O1 = None \<or> \<not> cart_clear_rejects courier_failure_env"
    "\<not> save_flag_rejects courier_failure_env"
    by (simp_all add: courier_failure_env_def example_find)
  have c: "courier_call_throws courier_failure_env"
    by (simp add: courier_call_throws_def courier_failure_env_def example_env_def)
  show ?thesis
    using C2_courier_failure_is_isolated[OF v example_confirmed example_order_id t f p r(1,2) c r(3)]
    by (simp add: O1_def)
qed

subsection \<open>Cart clear failure\<close>

text \<open>
  C7, as amended. For a verified payment confirmation on an existing unpaid order with an
  owning user whose payment was persisted: when the cart clear rejects, the exception
  reaches the outer handler, the answer is 500 "Server error during webhook processing",
  no shipment creation is attempted, and the store holds the order as paid and Placed.
\<close>

theorem C7_cart_clear_failure_aborts:
  assumes "verified env req" "payment_confirmed req"
    and "internal_order_id req = Inr (Some k)" "truthy (Some k)"
    and "findById env st k = Inr (Some doc)" "paymentStatus doc \<noteq> Paid"
    and "user doc = Some u" "\<not> save_paid_rejects env" "cart_clear_rejects env"
  shows "webhook env req st =
           (Inr (reply 500 ''Server error during webhook processing''),
            [SaveOrder k (doc\<lparr>paymentStatus := Paid, status := Placed\<rparr>) True, ClearCart u False])
       \<and> run (snd (webhook env req st)) st = st(k \<mapsto> doc\<lparr>paymentStatus := Paid, status := Placed\<rparr>)"
proof -
  have "webhook env req st =
           (Inr (reply 500 ''Server error during webhook processing''),
            [SaveOrder k (doc\<lparr>paymentStatus := Paid, status := Placed\<rparr>) True, ClearCart u False])"
    unfolding webhook_unpaid[OF assms(1-6)]
    using assms(7-9) by (simp add: clear_cart_def)
  then show ?thesis
    by (simp add: run_Cons run_Nil)
qed

theorem C7_cart_clear_failure_aborts_witness:
  "webhook cart_failure_env O1_paid_event example_store =
     (Inr (reply 500 ''Server error during webhook processing''),
      [SaveOrder (JStr ''O1'') (O1\<lparr>paymentStatus := Paid, status := Placed\<rparr>) True,
       ClearCart ''u1'' False])"
proof -
  have t: "truthy (Some (JStr ''O1''))" by simp
  have p: "paymentStatus O1 \<noteq> Paid" by (simp add: O1_fields)
  have r: "\<not> save_paid_rejects cart_failure_env" "cart_clear_rejects cart_failure_env"
    by (simp_all add: cart_failure_env_def example_find)
  show ?thesis
    using C7_cart_clear_failure_aborts[OF cart_failure_verified example_confirmed example_order_id t
        cart_failure_found p O1_fields(2) r]
    by simp
qed

text \<open>
  C7 as stated fails: with a rejecting cart clear the answer is 500 and no shipment
  creation is issued, whereas the same delivery with a succeeding cart clear is answered
  200 and issues one.
\<close>

theorem C7_cart_clear_counterexample:
  "fst (webhook cart_failure_env O1_paid_event example_store)
     = Inr (reply 500 ''Server error during webhook processing'')
   \<and> filter is_create_shipment (snd (webhook cart_failure_env O1_paid_event example_store)) = []
   \<and> fst (webhook example_env O1_paid_event example_store)
     = Inr (reply_success ''Webhook processed.'')
   \<and> filter is_create_shipment (snd (webhook example_env O1_paid_event example_store))
     = [CreateShipment (JStr ''O1'') (O1\<lparr>paymentStatus := Paid, status := Placed\<rparr>)]"
proof -
  have t: "truthy (Some (JStr ''O1''))" by simp
  have p: "paymentStatus O1 \<noteq> Paid" by (simp add: O1_fields)
  have "webhook cart_failure_env O1_paid_event example_store =
     (Inr (reply 500 ''Server error during webhook processing''),
      [SaveOrder (JStr ''O1'') (O1\<lparr>paymentStatus := Paid, status := Placed\<rparr>) True,
       ClearCart ''u1'' False])"
    unfolding webhook_unpaid[OF cart_failure_verified example_confirmed example_order_id t
        cart_failure_found p]
    by (simp add: cart_failure_env_def example_env_def clear_cart_def O1_fields)
  then show ?thesis
    by (simp add: example_run)
qed

subsection \<open>The end-to-end scenario on the server as configured\<close>

text \<open>
  C8. Order O1 is pending; a correctly signed \<open>payment_link.paid\<close> for O1 arrives and both
  courier calls succeed. The order becomes paid and Placed, one shipment creation is
  issued and the response is 200, but with the application as the server's entry file
  configures it (no setting named "io") no \<open>newOrder\<close> broadcast is emitted.
\<close>

theorem C8_server_emits_no_broadcast:
  "app example_env = server_app
   \<and> paymentStatus O1 = Pending
   \<and> fst (webhook example_env O1_paid_event example_store)
       = Inr (reply_success ''Webhook processed.'')
   \<and> map_option paymentStatus
        (run (snd (webhook example_env O1_paid_event example_store)) example_store (JStr ''O1''))
       = Some Paid
   \<and> map_option status
        (run (snd (webhook example_env O1_paid_event example_store)) example_store (JStr ''O1''))
       = Some Placed
   \<and> length (filter is_create_shipment (snd (webhook example_env O1_paid_event example_store))) = 1
   \<and> filter is_emit (snd (webhook example_env O1_paid_event example_store)) = []"
  by (simp add: example_run run_Cons run_Nil O1_fields) (simp add: example_env_def)

subsection \<open>The payment is persisted before anything else\<close>

text \<open>
  C4. For a verified payment confirmation on an existing unpaid order, the first effect
  of the delivery is the write of the order with \<open>paymentStatus\<close> paid and \<open>status\<close>
  Placed. If that write is rejected, no external call is issued. Every external call
  (cart clear, shipment creation, courier assignment, broadcast) comes after the
  successful write. And if the process stops at any point after that write, the store
  holds the order as paid and Placed.
\<close>

theorem C4_payment_persisted_first:
  assumes "verified env req" "payment_confirmed req"
    and "internal_order_id req = Inr (Some k)" "truthy (Some k)"
    and "findById env st k = Inr (Some doc)" "paymentStatus doc \<noteq> Paid"
  shows "hd (snd (webhook env req st))
           = SaveOrder k (doc\<lparr>paymentStatus := Paid, status := Placed\<rparr>) (\<not> save_paid_rejects env)
       \<and> snd (webhook env req st) \<noteq> []
       \<and> (save_paid_rejects env \<longrightarrow> filter is_external_call (snd (webhook env req st)) = [])
       \<and> (\<forall>i < length (snd (webhook env req st)).
             is_external_call (snd (webhook env req st) ! i) \<longrightarrow>
               0 < i \<and> snd (webhook env req st) ! 0
                 = SaveOrder k (doc\<lparr>paymentStatus := Paid, status := Placed\<rparr>) True)
       \<and> (\<forall>n. \<not> save_paid_rejects env \<and> 0 < n \<longrightarrow>
             (\<exists>d. run (take n (snd (webhook env req st))) st k = Some d
                  \<and> paymentStatus d = Paid \<and> status d = Placed))"
proof -
  let ?doc1 = "doc\<lparr>paymentStatus := Paid, status := Placed\<rparr>"
  let ?effs = "snd (webhook env req st)"
  from unpaid_effects[OF assms] obtain rest where
    r: "?effs = SaveOrder k ?doc1 (\<not> save_paid_rejects env) # rest"
      "save_paid_rejects env \<longrightarrow> rest = []"
      "list_all (writes_only k Paid Placed) rest"
    by blast
  have a: "hd ?effs = SaveOrder k ?doc1 (\<not> save_paid_rejects env)" "?effs \<noteq> []"
    using r(1) by simp_all
  have b: "save_paid_rejects env \<longrightarrow> filter is_external_call ?effs = []"
    using r(1,2) by simp
  have c: "0 < i \<and> ?effs ! 0 = SaveOrder k ?doc1 True"
    if "i < length ?effs" "is_external_call (?effs ! i)" for i
  proof (cases "save_paid_rejects env")
    case True
    with r that show ?thesis by (cases i) simp_all
  next
    case False
    with r(1) that show ?thesis by (cases i) simp_all
  qed
  have d: "\<exists>d. run (take n ?effs) st k = Some d \<and> paymentStatus d = Paid \<and> status d = Placed"
    if "\<not> save_paid_rejects env" "0 < n" for n
  proof -
    from that(2) obtain m where n: "n = Suc m" by (cases n) simp_all
    have "\<exists>d. run (take m rest) (st(k \<mapsto> ?doc1)) k = Some d \<and> paymentStatus d = Paid \<and> status d = Placed"
      by (rule run_writes_only[OF list_all_take[OF r(3)], where d = ?doc1]) simp_all
    with that(1) r(1) n show ?thesis by (simp add: run_Cons)
  qed
  from a b c d show ?thesis by blast
qed

theorem C4_payment_persisted_first_witness:
  "hd (snd (webhook example_env O1_paid_event example_store))
     = SaveOrder (JStr ''O1'') (O1\<lparr>paymentStatus := Paid, status := Placed\<rparr>) True
   \<and> is_external_call (snd (webhook example_env O1_paid_event example_store) ! 2)
   \<and> (\<exists>d. run (take 2 (snd (webhook example_env O1_paid_event example_store))) example_store
              (JStr ''O1'') = Some d
          \<and> paymentStatus d = Paid \<and> status d = Placed)"
proof -
  have t: "truthy (Some (JStr ''O1''))" by simp
  have p: "paymentStatus O1 \<noteq> Paid" by (simp add: O1_fields)
  have e: "is_external_call (snd (webhook example_env O1_paid_event example_store) ! 2)"
    by (simp add: example_run)
  show ?thesis
    using C4_payment_persisted_first[OF example_verified example_confirmed example_order_id t
        example_found p] example_find(2) e
    by simp
qed


subsection \<open>Orders without an owning user\<close>




subsection \<open>Monotonicity\<close>

text \<open>
  C3, as amended. Along any sequence of webhook-processing steps, an order stays in the
  store; an order whose \<open>paymentStatus\<close> is paid is not changed at all; the
  \<open>paymentStatus\<close> of an order stays as it is or becomes paid; its \<open>status\<close> stays as
  it is or becomes Placed, so it does not move backward when it was Created or Placed.
\<close>

theorem C3_paid_is_final:
  assumes "webhook_step\<^sup>*\<^sup>* st st'" "st k = Some doc"
  shows "\<exists>doc'. st' k = Some doc'
           \<and> (paymentStatus doc = Paid \<longrightarrow> doc' = doc)
           \<and> (paymentStatus doc' = paymentStatus doc \<or> paymentStatus doc' = Paid)
           \<and> (status doc' = status doc \<or> status doc' = Placed)
           \<and> (rank (status doc) \<le> rank Placed \<longrightarrow> rank (status doc) \<le> rank (status doc'))"
proof -
  from steps_change[OF assms] obtain doc' where "st' k = Some doc'"
      "doc' = doc \<or> paymentStatus doc \<noteq> Paid \<and> paymentStatus doc' = Paid \<and> status doc' = Placed"
    by blast
  then show ?thesis by auto
qed

theorem C3_paid_is_final_witness:
  "\<exists>doc'. run (snd (webhook example_env O1_paid_event example_store)) example_store (JStr ''O1'')
             = Some doc'
         \<and> paymentStatus doc' = Paid \<and> rank (status O1) \<le> rank (status doc')"
proof -
  let ?effs = "snd (webhook example_env O1_paid_event example_store)"
  have "webhook_step example_store (run (take (length ?effs) ?effs) example_store)"
    by (rule webhook_step.delivery) simp
  then have a: "webhook_step\<^sup>*\<^sup>* example_store (run ?effs example_store)"
    by simp
  have b: "example_store (JStr ''O1'') = Some O1"
    by (simp add: example_store_def)
  have c: "paymentStatus (the (run ?effs example_store (JStr ''O1''))) = Paid"
    by (simp add: example_run run_Cons run_Nil)
  show ?thesis
    using C3_paid_is_final[OF a b] c by (auto simp: O1_fields)
qed

text \<open>
  C3 as stated fails: an unpaid order whose \<open>status\<close> is Shipping is set back to Placed
  by its payment confirmation.
\<close>

theorem C3_status_moves_back_counterexample:
  "webhook_step shipped_unpaid_store
     (run (snd (webhook example_env O1_paid_event shipped_unpaid_store)) shipped_unpaid_store)
   \<and> map_option status (shipped_unpaid_store (JStr ''O1'')) = Some Shipping
   \<and> map_option status
        (run (snd (webhook example_env O1_paid_event shipped_unpaid_store)) shipped_unpaid_store
           (JStr ''O1'')) = Some Placed
   \<and> rank Placed < rank Shipping"
proof -
  let ?effs = "snd (webhook example_env O1_paid_event shipped_unpaid_store)"
  have "webhook_step shipped_unpaid_store (run (take (length ?effs) ?effs) shipped_unpaid_store)"
    by (rule webhook_step.delivery) simp
  then have a: "webhook_step shipped_unpaid_store (run ?effs shipped_unpaid_store)"
    by simp
  have t: "truthy (Some (JStr ''O1''))" by simp
  have f: "findById example_env shipped_unpaid_store (JStr ''O1'') = Inr (Some (O1\<lparr>status := Shipping\<rparr>))"
    by (simp add: findById_def shipped_unpaid_store_def example_find)
  have p: "paymentStatus (O1\<lparr>status := Shipping\<rparr>) \<noteq> Paid"
    by (simp add: O1_fields)
  let ?doc1 = "O1\<lparr>status := Shipping, paymentStatus := Paid, status := Placed\<rparr>"
  from unpaid_effects[OF example_verified example_confirmed example_order_id t f p] example_find(2)
  obtain rest where r: "?effs = SaveOrder (JStr ''O1'') ?doc1 True # rest"
      "list_all (writes_only (JStr ''O1'') Paid Placed) rest"
    by auto
  have "\<exists>d'. run rest (shipped_unpaid_store(JStr ''O1'' \<mapsto> ?doc1)) (JStr ''O1'') = Some d'
          \<and> paymentStatus d' = Paid \<and> status d' = Placed"
    by (rule run_writes_only[OF r(2), where d = ?doc1]) simp_all
  then have b: "map_option status (run ?effs shipped_unpaid_store (JStr ''O1'')) = Some Placed"
    using r(1) by (auto simp: run_Cons)
  have c: "map_option status (shipped_unpaid_store (JStr ''O1'')) = Some Shipping"
    by (simp add: shipped_unpaid_store_def)
  from a b c show ?thesis by simp
qed

end
